theory Spec2Isabelle
  imports Complex_Main
begin

section \<open>Linear regression by the matrix inverse method\<close>

text \<open>
  The notebook generates 100 noisy points along the line \<open>y = x\<close>, builds the design
  matrix \<open>A\<close> (x-values, ones), computes \<open>(A\<^sup>T A)\<^sup>-\<^sup>1 A\<^sup>T y\<close> with TensorFlow operations,
  prints slope and intercept, plots the fit and opens a TensorBoard writer.

  A number is a \<^typ>\<open>real\<close>. The solver is modelled twice. \<open>solution\<close> carries out
  every operation exactly; it is the formula \<open>(A\<^sup>T A)\<^sup>-\<^sup>1 A\<^sup>T y\<close> itself and serves
  for shapes, the order of the coefficients, the effects of a run and the scenario values.
  \<open>solution_rounded\<close> follows the operations of the code one by one and rounds the
  result of each; with \<open>fl64\<close>, rounding to the nearest 64-bit float, it is what the
  running code computes (\<open>solution_f64\<close>), and with no rounding it is \<open>solution\<close>
  again. Where rounding decides whether a statement is true of the code, the statement
  is checked on \<open>solution_f64\<close>.

  A NumPy 1-D array is a list, a NumPy matrix or a rank-2 tensor is the list of its rows
  (so a matrix without rows has no column count of its own). An exception is the \<open>Inl\<close>
  branch of a sum.

  The operations of NumPy, TensorFlow and Matplotlib are not code of the notebook; each
  is modelled by what it computes on the shapes the notebook gives it. Resetting the
  default graph, opening the session and wrapping an array in \<open>tf.constant\<close> change
  nothing a run can observe.
\<close>

subsection \<open>Errors\<close>

datatype error =
    Broadcast_mismatch    \<comment> \<open>NumPy: operands could not be broadcast together\<close>
  | Stack_mismatch        \<comment> \<open>NumPy: concatenated arrays differ in their row count\<close>
  | Matmul_mismatch       \<comment> \<open>TensorFlow: inner dimensions of a product differ\<close>
  | Not_square            \<comment> \<open>TensorFlow: inverse of a matrix that is not square\<close>
  | Not_invertible        \<comment> \<open>TensorFlow: Input is not invertible\<close>
  | Index_out_of_range    \<comment> \<open>Python: IndexError\<close>
  | Plot_mismatch         \<comment> \<open>Matplotlib: x and y must have same first dimension\<close>
  | Not_finite            \<comment> \<open>a float64 result is infinite or not a number\<close>

subsection \<open>Matrices as lists of rows\<close>

type_synonym matrix = "real list list"

definition nrows :: "matrix \<Rightarrow> nat" where
  "nrows M = length M"

definition ncols :: "matrix \<Rightarrow> nat" where
  "ncols M = (case M of [] \<Rightarrow> 0 | r # _ \<Rightarrow> length r)"

definition transpose_m :: "matrix \<Rightarrow> matrix" where
  "transpose_m M = map (\<lambda>j. map (\<lambda>r. r ! j) M) [0..<ncols M]"

definition dot :: "real list \<Rightarrow> real list \<Rightarrow> real" where
  "dot r c = sum_list (map2 (*) r c)"

definition mat_mul :: "matrix \<Rightarrow> matrix \<Rightarrow> matrix" where
  "mat_mul M N = map (\<lambda>r. map (dot r) (transpose_m N)) M"

text \<open>Determinant by expansion along the first row, inverse as adjugate over determinant.\<close>

definition drop_col :: "nat \<Rightarrow> real list \<Rightarrow> real list" where
  "drop_col j r = take j r @ drop (Suc j) r"

definition minor_m :: "matrix \<Rightarrow> nat \<Rightarrow> nat \<Rightarrow> matrix" where
  "minor_m M i j = map (drop_col j) (take i M @ drop (Suc i) M)"

fun det :: "matrix \<Rightarrow> real" where
  "det [] = 1"
| "det (r # rs) =
     sum_list (map (\<lambda>j. (- 1) ^ j * (r ! j) * det (map (drop_col j) rs)) [0..<Suc (length rs)])"

definition adjugate_over_det :: "matrix \<Rightarrow> matrix" where
  "adjugate_over_det M =
     map (\<lambda>i. map (\<lambda>j. (- 1) ^ (i + j) * det (minor_m M j i) / det M) [0..<length M])
       [0..<length M]"

subsection \<open>NumPy operations of the notebook\<close>

definition np_linspace :: "real \<Rightarrow> real \<Rightarrow> nat \<Rightarrow> real list" where
  "np_linspace start stop num =
     (if num = 1 then [start]
      else map (\<lambda>i. start + real i * ((stop - start) / real (num - 1))) [0..<num])"

definition np_repeat :: "real \<Rightarrow> nat \<Rightarrow> real list" where
  "np_repeat v n = replicate n v"

definition np_matrix :: "real list \<Rightarrow> matrix" where
  "np_matrix xs = [xs]"

definition np_transpose :: "matrix \<Rightarrow> matrix" where
  "np_transpose M = transpose_m M"

definition np_add :: "real list \<Rightarrow> real list \<Rightarrow> error + real list" where
  "np_add xs ys =
     (if length xs = length ys then Inr (map2 (+) xs ys)
      else if length xs = 1 then Inr (map (\<lambda>y. hd xs + y) ys)
      else if length ys = 1 then Inr (map (\<lambda>x. x + hd ys) xs)
      else Inl Broadcast_mismatch)"

definition np_column_stack :: "matrix \<Rightarrow> matrix \<Rightarrow> error + matrix" where
  "np_column_stack M N =
     (if nrows M = nrows N then Inr (map2 (@) M N) else Inl Stack_mismatch)"

subsection \<open>TensorFlow operations of the notebook, carried out exactly\<close>

definition tf_constant :: "matrix \<Rightarrow> matrix" where
  "tf_constant M = M"

definition tf_transpose :: "matrix \<Rightarrow> matrix" where
  "tf_transpose M = transpose_m M"

definition tf_matmul :: "matrix \<Rightarrow> matrix \<Rightarrow> error + matrix" where
  "tf_matmul M N = (if ncols M = nrows N then Inr (mat_mul M N) else Inl Matmul_mismatch)"

definition tf_matrix_inverse :: "matrix \<Rightarrow> error + matrix" where
  \<comment> \<open>TensorFlow factorises the matrix and rejects it when a pivot is exactly zero; in
      exact arithmetic that is the case exactly when the determinant is zero (the
      rounded factorisation is \<open>tf_matrix_inverse_rounded\<close> below)\<close>
  "tf_matrix_inverse M =
     (if ncols M \<noteq> nrows M then Inl Not_square
      else if det M = 0 then Inl Not_invertible
      else Inr (adjugate_over_det M))"

subsection \<open>DesignMatrixBuilder\<close>

definition design_matrix :: "real list \<Rightarrow> error + matrix" where
  \<comment> \<open>\<open>x_vals_column = np.transpose(np.matrix(x_vals))\<close>,
      \<open>ones_column = np.transpose(np.matrix(np.repeat(1, 100)))\<close>,
      \<open>A = np.column_stack((x_vals_column, ones_column))\<close>\<close>
  "design_matrix x_vals =
     (let x_vals_column = np_transpose (np_matrix x_vals);
          ones_column = np_transpose (np_matrix (np_repeat 1 100))
      in np_column_stack x_vals_column ones_column)"

subsection \<open>NormalEquationSolver\<close>

definition solution :: "matrix \<Rightarrow> matrix \<Rightarrow> error + matrix" where
  \<comment> \<open>\<open>tA_A = tf.matmul(tf.transpose(A_tensor), A_tensor)\<close>,
      \<open>tA_A_inv = tf.matrix_inverse(tA_A)\<close>,
      \<open>product = tf.matmul(tA_A_inv, tf.transpose(A_tensor))\<close>,
      \<open>solution = tf.matmul(product, y_tensor)\<close>\<close>
  "solution A_tensor y_tensor =
     (case tf_matmul (tf_transpose A_tensor) A_tensor of
        Inl e \<Rightarrow> Inl e
      | Inr tA_A \<Rightarrow>
     (case tf_matrix_inverse tA_A of
        Inl e \<Rightarrow> Inl e
      | Inr tA_A_inv \<Rightarrow>
     (case tf_matmul tA_A_inv (tf_transpose A_tensor) of
        Inl e \<Rightarrow> Inl e
      | Inr product \<Rightarrow> tf_matmul product y_tensor)))"

subsection \<open>Rounding to 64-bit floating point\<close>











subsection \<open>The solver with every operation rounded\<close>
















subsection \<open>The world a run acts on\<close>

text \<open>
  What a run can read or change outside its own variables: the draws of NumPy's global
  random generator (never seeded by the notebook, so any sequence of draws is possible),
  the lines printed to the console, the figures shown, and the paths that exist in the
  file system. Creating a directory or a file is taken to succeed.
\<close>

record series =
  xdata :: "real list"
  ydata :: "real list"
  fmt :: string
  label :: string
  linewidth :: "real option"

record figure =
  lines :: "series list"
  legend_loc :: "string option"

record world =
  gauss :: "nat \<Rightarrow> real"
  stdout :: "string list"
  shown :: "figure list"
  paths :: "string set"

definition np_random_normal :: "real \<Rightarrow> real \<Rightarrow> nat \<Rightarrow> world \<Rightarrow> real list \<times> world" where
  \<comment> \<open>\<open>n\<close> fresh standard draws, scaled by \<open>scale\<close> and shifted by \<open>loc\<close>\<close>
  "np_random_normal loc scale n w =
     (map (\<lambda>i. loc + scale * gauss w i) [0..<n],
      w\<lparr>gauss := \<lambda>i. gauss w (i + n)\<rparr>)"

definition py_print :: "string \<Rightarrow> world \<Rightarrow> world" where
  "py_print s w = w\<lparr>stdout := stdout w @ [s]\<rparr>"

definition empty_figure :: figure where
  "empty_figure = \<lparr>lines = [], legend_loc = None\<rparr>"

definition plt_plot ::
  "real list \<Rightarrow> real list \<Rightarrow> string \<Rightarrow> string \<Rightarrow> real option \<Rightarrow> figure \<Rightarrow> error + figure" where
  "plt_plot xs ys f l lw fig =
     (if length xs = length ys
      then Inr (fig\<lparr>lines := lines fig @
                  [\<lparr>xdata = xs, ydata = ys, fmt = f, label = l, linewidth = lw\<rparr>]\<rparr>)
      else Inl Plot_mismatch)"

definition plt_legend :: "string \<Rightarrow> figure \<Rightarrow> figure" where
  "plt_legend loc fig = fig\<lparr>legend_loc := Some loc\<rparr>"

definition plt_show :: "figure \<Rightarrow> world \<Rightarrow> world" where
  "plt_show fig w = w\<lparr>shown := shown w @ [fig]\<rparr>"

definition os_path_exists :: "string \<Rightarrow> world \<Rightarrow> bool" where
  "os_path_exists p w = (p \<in> paths w)"

definition os_makedirs :: "string \<Rightarrow> world \<Rightarrow> world" where
  "os_makedirs p w = w\<lparr>paths := insert p (paths w)\<rparr>"

definition file_writer :: "string \<Rightarrow> string \<Rightarrow> world \<Rightarrow> world" where
  \<comment> \<open>\<open>tf.summary.FileWriter(logdir, graph)\<close>: makes sure \<open>logdir\<close> exists and opens an
      event file in it; the file's name (time stamp, host name) is the parameter
      \<open>event_file\<close>\<close>
  "file_writer logdir event_file w =
     w\<lparr>paths := insert (logdir @ event_file) (insert logdir (paths w))\<rparr>"

subsection \<open>DataGenerator\<close>

definition y_values :: "real list \<Rightarrow> world \<Rightarrow> error + (real list \<times> world)" where
  \<comment> \<open>\<open>y_vals = x_vals + np.random.normal(0, 1, 100)\<close>\<close>
  "y_values x_vals w =
     (case np_random_normal 0 1 100 w of
        (noise, w') \<Rightarrow>
          (case np_add x_vals noise of
             Inl e \<Rightarrow> Inl e
           | Inr y_vals \<Rightarrow> Inr (y_vals, w')))"

definition data_generator :: "world \<Rightarrow> error + ((real list \<times> real list) \<times> world)" where
  \<comment> \<open>\<open>x_vals = np.linspace(0, 10, 100)\<close>, then the y-values\<close>
  "data_generator w =
     (let x_vals = np_linspace 0 10 100
      in case y_values x_vals w of
           Inl e \<Rightarrow> Inl e
         | Inr (y_vals, w') \<Rightarrow> Inr ((x_vals, y_vals), w'))"

subsection \<open>Running the solver in the session\<close>

definition sess_run :: "error + matrix \<Rightarrow> world \<Rightarrow> error + (matrix \<times> world)" where
  \<comment> \<open>evaluating a node of a graph of constants reads and writes nothing of the world\<close>
  "sess_run node w = (case node of Inl e \<Rightarrow> Inl e | Inr v \<Rightarrow> Inr (v, w))"

definition solver_call :: "matrix \<Rightarrow> matrix \<Rightarrow> world \<Rightarrow> error + (matrix \<times> world)" where
  "solver_call A y w = sess_run (solution (tf_constant A) (tf_constant y)) w"

subsection \<open>ResultReporter\<close>

definition item :: "matrix \<Rightarrow> nat \<Rightarrow> nat \<Rightarrow> error + real" where
  \<comment> \<open>\<open>M[i][j]\<close> for indices that are not negative\<close>
  "item M i j =
     (if i < length M \<and> j < length (M ! i) then Inr (M ! i ! j) else Inl Index_out_of_range)"

definition extract_coefficients :: "matrix \<Rightarrow> error + (real \<times> real)" where
  \<comment> \<open>\<open>slope = solution_eval[0][0]\<close>, \<open>y_intercept = solution_eval[1][0]\<close>\<close>
  "extract_coefficients solution_eval =
     (case item solution_eval 0 0 of
        Inl e \<Rightarrow> Inl e
      | Inr slope \<Rightarrow>
     (case item solution_eval 1 0 of
        Inl e \<Rightarrow> Inl e
      | Inr y_intercept \<Rightarrow> Inr (slope, y_intercept)))"

text \<open>
  The loop \<open>for i in x_vals: best_fit.append(slope*i+y_intercept)\<close>, with the list
  built so far as the last argument.
\<close>

fun best_fit_loop :: "real \<Rightarrow> real \<Rightarrow> real list \<Rightarrow> real list \<Rightarrow> real list" where
  "best_fit_loop slope y_intercept [] best_fit = best_fit"
| "best_fit_loop slope y_intercept (i # rest) best_fit =
     best_fit_loop slope y_intercept rest (best_fit @ [slope * i + y_intercept])"

definition report :: "(real \<Rightarrow> string) \<Rightarrow> real \<Rightarrow> real \<Rightarrow> world \<Rightarrow> world" where
  \<comment> \<open>\<open>print('slope: ' + str(slope))\<close>, \<open>print('y_intercept: ' + str(y_intercept))\<close>;
      \<open>str_float\<close> is Python's \<open>str\<close> on a float\<close>
  "report str_float slope y_intercept w =
     py_print (''y_intercept: '' @ str_float y_intercept)
       (py_print (''slope: '' @ str_float slope) w)"

definition plot_results ::
  "real list \<Rightarrow> real list \<Rightarrow> real list \<Rightarrow> world \<Rightarrow> error + world" where
  "plot_results x_vals y_vals best_fit w =
     (case plt_plot x_vals y_vals ''o'' ''Data'' None empty_figure of
        Inl e \<Rightarrow> Inl e
      | Inr fig1 \<Rightarrow>
     (case plt_plot x_vals best_fit ''r-'' ''Best fit line'' (Some 3) fig1 of
        Inl e \<Rightarrow> Inl e
      | Inr fig2 \<Rightarrow> Inr (plt_show (plt_legend ''upper left'' fig2) w)))"

definition tensorboard_logs :: "string \<Rightarrow> world \<Rightarrow> world" where
  \<comment> \<open>the last cell: \<open>if not os.path.exists('tensorboard_logs/'):
      os.makedirs('tensorboard_logs/')\<close>, then
      \<open>my_writer = tf.summary.FileWriter('tensorboard_logs/', sess.graph)\<close>; merging the
      (absent) summaries before has no effect\<close>
  "tensorboard_logs event_file w =
     file_writer ''tensorboard_logs/'' event_file
       (if \<not> os_path_exists ''tensorboard_logs/'' w
        then os_makedirs ''tensorboard_logs/'' w else w)"

subsection \<open>The whole run\<close>

text \<open>
  The cells run in order; the first exception ends the run. \<open>fit_and_report\<close> is
  everything after the data has been generated, \<open>main\<close> is the notebook, and
  \<open>pipeline\<close> is the notebook with another x-sequence in the place of
  \<open>np.linspace(0, 10, 100)\<close>.
\<close>

definition fit_and_report ::
  "(real \<Rightarrow> string) \<Rightarrow> string \<Rightarrow> real list \<Rightarrow> real list \<Rightarrow> world \<Rightarrow> error + world" where
  "fit_and_report str_float event_file x_vals y_vals w1 =
     (case design_matrix x_vals of
        Inl e \<Rightarrow> Inl e
      | Inr A \<Rightarrow>
     (case solver_call A (np_transpose (np_matrix y_vals)) w1 of
        Inl e \<Rightarrow> Inl e
      | Inr (solution_eval, w2) \<Rightarrow>
     (case extract_coefficients solution_eval of
        Inl e \<Rightarrow> Inl e
      | Inr (slope, y_intercept) \<Rightarrow>
     (case plot_results x_vals y_vals (best_fit_loop slope y_intercept x_vals [])
             (report str_float slope y_intercept w2) of
        Inl e \<Rightarrow> Inl e
      | Inr w3 \<Rightarrow> Inr (tensorboard_logs event_file w3)))))"

definition main :: "(real \<Rightarrow> string) \<Rightarrow> string \<Rightarrow> world \<Rightarrow> error + world" where
  "main str_float event_file w =
     (case data_generator w of
        Inl e \<Rightarrow> Inl e
      | Inr ((x_vals, y_vals), w1) \<Rightarrow> fit_and_report str_float event_file x_vals y_vals w1)"

definition pipeline ::
  "(real \<Rightarrow> string) \<Rightarrow> string \<Rightarrow> real list \<Rightarrow> world \<Rightarrow> error + world" where
  "pipeline str_float event_file x_vals w =
     (case y_values x_vals w of
        Inl e \<Rightarrow> Inl e
      | Inr (y_vals, w1) \<Rightarrow> fit_and_report str_float event_file x_vals y_vals w1)"

section \<open>Vocabulary of the specification\<close>

text \<open>
  The definitions below are not code of the notebook: they name what the specification
  talks about (residuals, independent columns, a constant sequence) and the shapes the
  proofs work with.
\<close>

subsection \<open>Shapes\<close>

text \<open>
  \<open>rows2 u v\<close> is the matrix with first column \<open>u\<close> and second column \<open>v\<close>,
  \<open>column ys\<close> the matrix with the single column \<open>ys\<close>.
\<close>

definition rows2 :: "real list \<Rightarrow> real list \<Rightarrow> matrix" where
  "rows2 u v = map2 (\<lambda>a b. [a, b]) u v"

definition column :: "real list \<Rightarrow> matrix" where
  "column ys = map (\<lambda>t. [t]) ys"

text \<open>
  The determinant of \<open>A\<^sup>T A\<close> for \<open>A = rows2 u v\<close>.
\<close>

definition gram_det :: "real list \<Rightarrow> real list \<Rightarrow> real" where
  "gram_det u v = dot u u * dot v v - dot u v * dot u v"

subsection \<open>Residuals\<close>

text \<open>
  \<open>sq_residual A x y\<close> is the squared norm of \<open>A x - y\<close>, the sum of the squares of
  its entries; \<open>line_residual k c xs ys\<close> is the same quantity for the line with slope
  \<open>k\<close> and intercept \<open>c\<close> through the points \<open>(xs ! i, ys ! i)\<close>; \<open>quad u v d0 d1\<close> is
  the squared norm of \<open>d0 u + d1 v\<close>.
\<close>

definition mat_sub :: "matrix \<Rightarrow> matrix \<Rightarrow> matrix" where
  "mat_sub M N = map2 (map2 (-)) M N"

definition sq_norm :: "matrix \<Rightarrow> real" where
  "sq_norm M = sum_list (map (\<lambda>r. sum_list (map (\<lambda>v. v\<^sup>2) r)) M)"

definition sq_residual :: "matrix \<Rightarrow> matrix \<Rightarrow> matrix \<Rightarrow> real" where
  "sq_residual A x y = sq_norm (mat_sub (mat_mul A x) y)"

definition line_residual :: "real \<Rightarrow> real \<Rightarrow> real list \<Rightarrow> real list \<Rightarrow> real" where
  "line_residual k c xs ys = sum_list (map2 (\<lambda>x y. (k * x + c - y)\<^sup>2) xs ys)"

definition quad :: "real list \<Rightarrow> real list \<Rightarrow> real \<Rightarrow> real \<Rightarrow> real" where
  "quad u v d0 d1 = sum_list (map2 (\<lambda>a b. (d0 * a + d1 * b)\<^sup>2) u v)"

subsection \<open>Conditions on the input\<close>

text \<open>
  The two columns of \<open>A\<close> are linearly independent when no combination of them other
  than the trivial one vanishes in every row. A sequence is constant when all its values
  are identical.
\<close>

definition independent_columns :: "matrix \<Rightarrow> bool" where
  "independent_columns A =
     (\<forall>c0 c1. (\<forall>r \<in> set A. c0 * (r ! 0) + c1 * (r ! 1) = 0) \<longrightarrow> c0 = 0 \<and> c1 = 0)"

fun constant_seq :: "real list \<Rightarrow> bool" where
  "constant_seq [] = True"
| "constant_seq (x # rest) = list_all (\<lambda>v. v = x) rest"

subsection \<open>The world after a run\<close>

text \<open>
  \<open>noisy x_vals w\<close> are the y-values the generator makes from \<open>x_vals\<close> in the world
  \<open>w\<close>; \<open>result_figure\<close> is the figure the last plotting cell shows; \<open>after_run\<close> is
  the world a run of the notebook leaves when the solver returned \<open>slope\<close> and
  \<open>y_intercept\<close>.
\<close>

definition noisy :: "real list \<Rightarrow> world \<Rightarrow> real list" where
  "noisy x_vals w = map2 (+) x_vals (fst (np_random_normal 0 1 100 w))"

definition result_figure :: "real list \<Rightarrow> real list \<Rightarrow> real list \<Rightarrow> figure" where
  "result_figure x_vals y_vals best_fit =
     \<lparr>lines = [\<lparr>xdata = x_vals, ydata = y_vals, fmt = ''o'', label = ''Data'',
                 linewidth = None\<rparr>,
               \<lparr>xdata = x_vals, ydata = best_fit, fmt = ''r-'', label = ''Best fit line'',
                 linewidth = Some 3\<rparr>],
      legend_loc = Some ''upper left''\<rparr>"

definition after_run ::
  "(real \<Rightarrow> string) \<Rightarrow> string \<Rightarrow> real list \<Rightarrow> real \<Rightarrow> real \<Rightarrow> world \<Rightarrow> world" where
  "after_run str_float event_file x_vals slope y_intercept w =
     w\<lparr>gauss := \<lambda>i. gauss w (i + 100),
       stdout := stdout w @ [''slope: '' @ str_float slope,
                             ''y_intercept: '' @ str_float y_intercept],
       shown := shown w @ [result_figure x_vals (noisy x_vals w)
                             (map (\<lambda>x. slope * x + y_intercept) x_vals)],
       paths := paths w \<union> {''tensorboard_logs/'', ''tensorboard_logs/'' @ event_file}\<rparr>"

text \<open>
  A world and a stand-in for Python's \<open>str\<close> for the concrete runs below: every
  draw of the generator is 0, nothing has been printed or shown, no path exists.
\<close>

definition silent_world :: world where
  "silent_world = \<lparr>gauss = (\<lambda>i. 0), stdout = [], shown = [], paths = {}\<rparr>"

definition plain_str :: "real \<Rightarrow> string" where
  "plain_str v = ''<float>''"

section \<open>The solver in closed form\<close>

subsection \<open>Transposes and products of the shapes involved\<close>

lemma upt_2: "[0..<2] = [0, Suc 0]"
  by (simp add: upt_rec numeral_2_eq_2)

lemma rows2_col0: "length u = length v \<Longrightarrow> map (\<lambda>r. r ! 0) (rows2 u v) = u"
  unfolding rows2_def by (induction u v rule: list_induct2) simp_all

lemma rows2_col1: "length u = length v \<Longrightarrow> map (\<lambda>r. r ! Suc 0) (rows2 u v) = v"
  unfolding rows2_def by (induction u v rule: list_induct2) simp_all

lemma ncols_rows2: "length u = length v \<Longrightarrow> u \<noteq> [] \<Longrightarrow> ncols (rows2 u v) = 2"
  by (cases u; cases v) (simp_all add: ncols_def rows2_def)

lemma length_rows2: "length u = length v \<Longrightarrow> length (rows2 u v) = length u"
  by (simp add: rows2_def)

lemma length_column: "length (column ys) = length ys"
  by (simp add: column_def)

lemma transpose_rows2:
  "length u = length v \<Longrightarrow> u \<noteq> [] \<Longrightarrow> transpose_m (rows2 u v) = [u, v]"
  by (simp add: transpose_m_def ncols_rows2 upt_2 rows2_col0 rows2_col1)

lemma transpose_pair:
  "length u = length v \<Longrightarrow> transpose_m [u, v] = rows2 u v"
  unfolding transpose_m_def ncols_def rows2_def
  by (rule nth_equalityI) simp_all

lemma transpose_column: "ys \<noteq> [] \<Longrightarrow> transpose_m (column ys) = [ys]"
  by (cases ys) (simp_all add: transpose_m_def ncols_def column_def map_idI comp_def)

lemma transpose_row: "transpose_m [ys] = column ys"
  unfolding transpose_m_def ncols_def column_def
  by (rule nth_equalityI) simp_all

lemma design_rows: "map (\<lambda>x. [x, 1]) xs = rows2 xs (replicate (length xs) 1)"
  unfolding rows2_def by (induction xs) simp_all

lemma np_column: "np_transpose (np_matrix ys) = column ys"
  by (simp add: np_transpose_def np_matrix_def transpose_row)

lemma dot_commute: "dot u v = dot v u"
  unfolding dot_def
proof (induction u arbitrary: v)
  case Nil then show ?case by simp
next
  case (Cons a u) then show ?case by (cases v) simp_all
qed

lemma dot_pair_rows2:
  "length u = length v \<Longrightarrow> map (dot [p, q]) (rows2 u v) = map2 (\<lambda>a b. p * a + q * b) u v"
  unfolding rows2_def by (induction u v rule: list_induct2) (simp_all add: dot_def)

lemma dot_combination:
  "length u = length v \<Longrightarrow> length v = length ys \<Longrightarrow>
   dot (map2 (\<lambda>a b. p * a + q * b) u v) ys = p * dot u ys + q * dot v ys"
  unfolding dot_def
  by (induction u v ys rule: list_induct3) (simp_all add: algebra_simps)

subsection \<open>The inverse of a 2 by 2 matrix\<close>

lemma tf_matrix_inverse_2x2:
  "tf_matrix_inverse [[a, b], [c, d]] =
     (if a * d - b * c = 0 then Inl Not_invertible
      else Inr [[d / (a * d - b * c), - b / (a * d - b * c)],
                [- c / (a * d - b * c), a / (a * d - b * c)]])"
  by (simp add: tf_matrix_inverse_def ncols_def nrows_def adjugate_over_det_def minor_m_def
      drop_col_def upt_rec numeral_2_eq_2)

subsection \<open>The four operations of the solver\<close>

lemma gram_matrix:
  assumes "length u = length v" "u \<noteq> []"
  shows "tf_matmul (tf_transpose (rows2 u v)) (rows2 u v) =
           Inr [[dot u u, dot u v], [dot u v, dot v v]]"
  using assms
  by (simp add: tf_transpose_def tf_matmul_def mat_mul_def transpose_rows2 ncols_def nrows_def
      length_rows2 dot_commute [of v u])

lemma product_matrix:
  assumes "length u = length v" "u \<noteq> []"
  shows "tf_matmul [[p, q], [r, s]] (tf_transpose (rows2 u v)) =
           Inr [map2 (\<lambda>a b. p * a + q * b) u v, map2 (\<lambda>a b. r * a + s * b) u v]"
  using assms
  by (simp add: tf_transpose_def tf_matmul_def mat_mul_def transpose_rows2 transpose_pair
      ncols_def nrows_def dot_pair_rows2)

lemma product_target:
  assumes "length u = length v" "length v = length ys" "u \<noteq> []"
  shows "tf_matmul [map2 (\<lambda>a b. p * a + q * b) u v, map2 (\<lambda>a b. r * a + s * b) u v]
           (column ys) =
         Inr [[p * dot u ys + q * dot v ys], [r * dot u ys + s * dot v ys]]"
proof -
  have "ys \<noteq> []" using assms by auto
  then show ?thesis
    using assms
    by (simp add: tf_matmul_def mat_mul_def transpose_column ncols_def nrows_def
        dot_combination length_column)
qed

lemma solution_rows2:
  assumes "length u = length v" "length v = length ys" "u \<noteq> []"
  shows "solution (rows2 u v) (column ys) =
     (if gram_det u v = 0 then Inl Not_invertible
      else Inr [[(dot v v * dot u ys - dot u v * dot v ys) / gram_det u v],
                [(dot u u * dot v ys - dot u v * dot u ys) / gram_det u v]])"
proof (cases "gram_det u v = 0")
  case True
  then show ?thesis
    using assms
    by (simp add: solution_def gram_matrix tf_matrix_inverse_2x2 gram_det_def)
next
  case False
  define p where "p = dot v v / gram_det u v"
  define q where "q = - dot u v / gram_det u v"
  define s where "s = dot u u / gram_det u v"
  have inv: "tf_matrix_inverse [[dot u u, dot u v], [dot u v, dot v v]] = Inr [[p, q], [q, s]]"
    using False by (simp add: tf_matrix_inverse_2x2 gram_det_def p_def q_def s_def)
  have "solution (rows2 u v) (column ys) =
          Inr [[p * dot u ys + q * dot v ys], [q * dot u ys + s * dot v ys]]"
    using assms
    by (simp add: solution_def gram_matrix inv product_matrix product_target)
  also have "p * dot u ys + q * dot v ys =
          (dot v v * dot u ys - dot u v * dot v ys) / gram_det u v"
    by (simp add: p_def q_def diff_divide_distrib)
  also have "q * dot u ys + s * dot v ys =
          (dot u u * dot v ys - dot u v * dot u ys) / gram_det u v"
    by (simp add: s_def q_def diff_divide_distrib)
  finally show ?thesis using False by simp
qed



lemma extract_pair: "extract_coefficients [[s0], [s1]] = Inr (s0, s1)"
  by (simp add: extract_coefficients_def item_def)

subsection \<open>Without rounding, the operations of the code compute the exact solver\<close>











subsection \<open>Residuals as quadratic forms\<close>

lemma mat_mul_rows2_coeffs:
  "mat_mul (rows2 u v) [[z0], [z1]] = map2 (\<lambda>a b. [a * z0 + b * z1]) u v"
proof -
  have t: "transpose_m [[z0], [z1]] = [[z0, z1]]"
    by (simp add: transpose_m_def ncols_def)
  show ?thesis
    unfolding mat_mul_def t rows2_def
    by (induction u arbitrary: v) (auto simp: dot_def split: list.splits prod.splits
        simp: zip_Cons1)
qed

lemma sq_residual_rows2:
  "length u = length v \<Longrightarrow> length v = length ys \<Longrightarrow>
   sq_residual (rows2 u v) [[z0], [z1]] (column ys) =
     sum_list (map2 (\<lambda>(a, b) y. (a * z0 + b * z1 - y)\<^sup>2) (zip u v) ys)"
  unfolding sq_residual_def mat_mul_rows2_coeffs sq_norm_def mat_sub_def column_def
  by (induction u v ys rule: list_induct3) simp_all

lemma residual_expand:
  "length u = length v \<Longrightarrow> length v = length ys \<Longrightarrow>
   sum_list (map2 (\<lambda>(a, b) y. (a * z0 + b * z1 - y)\<^sup>2) (zip u v) ys) =
     z0\<^sup>2 * dot u u + 2 * z0 * z1 * dot u v + z1\<^sup>2 * dot v v
       - 2 * z0 * dot u ys - 2 * z1 * dot v ys + dot ys ys"
  unfolding dot_def
  by (induction u v ys rule: list_induct3) (simp_all add: algebra_simps power2_eq_square)

lemma quad_expand:
  "length u = length v \<Longrightarrow>
   quad u v d0 d1 = d0\<^sup>2 * dot u u + 2 * d0 * d1 * dot u v + d1\<^sup>2 * dot v v"
  unfolding dot_def quad_def
  by (induction u v rule: list_induct2) (simp_all add: algebra_simps power2_eq_square)

lemma quad_nonneg: "0 \<le> quad u v d0 d1"
  unfolding quad_def by (rule sum_list_nonneg) (auto simp: in_set_zip)

lemma quad_zero:
  assumes "quad u v d0 d1 = 0"
  shows "\<forall>r \<in> set (rows2 u v). d0 * (r ! 0) + d1 * (r ! 1) = 0"
proof -
  have "\<forall>t \<in> set (map2 (\<lambda>a b. (d0 * a + d1 * b)\<^sup>2) u v). t = 0"
    using assms unfolding quad_def
    by (subst (asm) sum_list_nonneg_eq_0_iff) auto
  then show ?thesis
    by (auto simp: rows2_def)
qed

lemma line_residual_sq:
  "length ys = length xs \<Longrightarrow>
   line_residual k c xs ys = sq_residual (map (\<lambda>x. [x, 1]) xs) [[k], [c]] (column ys)"
proof -
  assume len: "length ys = length xs"
  have "length xs = length (replicate (length xs) (1::real))" by simp
  from sq_residual_rows2 [OF this, of ys k c] len
  have "sq_residual (map (\<lambda>x. [x, 1]) xs) [[k], [c]] (column ys) =
      sum_list (map2 (\<lambda>(a, b) y. (a * k + b * c - y)\<^sup>2) (zip xs (replicate (length xs) 1)) ys)"
    by (simp add: design_rows)
  also have "\<dots> = line_residual k c xs ys"
    using len unfolding line_residual_def
    by (induction xs ys rule: list_induct2') (simp_all add: algebra_simps)
  finally show ?thesis by simp
qed

subsection \<open>Independent columns and the determinant of \<open>A\<^sup>T A\<close>\<close>

lemma independent_gram_det:
  assumes len: "length u = length v"
    and ind: "independent_columns (rows2 u v)"
  shows "gram_det u v \<noteq> 0"
proof
  assume z: "gram_det u v = 0"
  show False
  proof (cases "dot v v = 0")
    case True
    have "quad u v 0 1 = 0"
      using len True by (simp add: quad_expand)
    from quad_zero [OF this] ind have "(0::real) = 0 \<and> (1::real) = 0"
      unfolding independent_columns_def by blast
    then show False by simp
  next
    case False
    have "quad u v (dot v v) (- dot u v) = dot v v * gram_det u v"
      using len by (simp add: quad_expand gram_det_def algebra_simps power2_eq_square)
    then have "quad u v (dot v v) (- dot u v) = 0"
      using z by simp
    from quad_zero [OF this] ind have "dot v v = 0 \<and> - dot u v = 0"
      unfolding independent_columns_def by blast
    with False show False by simp
  qed
qed

lemma gram_det_independent:
  assumes len: "length u = length v"
    and nz: "gram_det u v \<noteq> 0"
  shows "independent_columns (rows2 u v)"
  unfolding independent_columns_def
proof (intro allI impI)
  fix c0 c1
  assume h: "\<forall>r \<in> set (rows2 u v). c0 * (r ! 0) + c1 * (r ! 1) = 0"
  have zero: "map2 (\<lambda>a b. c0 * a + c1 * b) u v = replicate (length u) 0"
  proof (rule nth_equalityI)
    show "length (map2 (\<lambda>a b. c0 * a + c1 * b) u v) = length (replicate (length u) (0::real))"
      using len by simp
  next
    fix i assume "i < length (map2 (\<lambda>a b. c0 * a + c1 * b) u v)"
    then have i: "i < length u" "i < length v" by simp_all
    then have "[u ! i, v ! i] \<in> set (rows2 u v)"
      unfolding rows2_def set_conv_nth by (auto intro!: exI [of _ i])
    with h have "c0 * (u ! i) + c1 * (v ! i) = 0" by fastforce
    with i show "map2 (\<lambda>a b. c0 * a + c1 * b) u v ! i = replicate (length u) 0 ! i"
      by simp
  qed
  have dz: "dot (replicate n 0) w = 0" for n w
    unfolding dot_def by (induction n arbitrary: w) (auto split: list.splits simp: zip_Cons1)
  have e1: "c0 * dot u u + c1 * dot v u = 0"
    using dot_combination [OF len, of u c0 c1] len zero dz by simp
  have e2: "c0 * dot u v + c1 * dot v v = 0"
    using dot_combination [OF len, of v c0 c1] len zero dz by simp
  have "c0 * gram_det u v = 0"
  proof -
    have "c0 * gram_det u v =
        (c0 * dot u u + c1 * dot v u) * dot v v - (c0 * dot u v + c1 * dot v v) * dot u v"
      by (simp add: gram_det_def algebra_simps dot_commute [of v u])
    then show ?thesis using e1 e2 by simp
  qed
  moreover have "c1 * gram_det u v = 0"
  proof -
    have "c1 * gram_det u v =
        (c0 * dot u v + c1 * dot v v) * dot u u - (c0 * dot u u + c1 * dot v u) * dot u v"
      by (simp add: gram_det_def algebra_simps dot_commute [of v u])
    then show ?thesis using e1 e2 by simp
  qed
  ultimately show "c0 = 0 \<and> c1 = 0" using nz by simp
qed

lemma nonconstant_independent:
  assumes "\<not> constant_seq xs"
  shows "independent_columns (map (\<lambda>x. [x, 1]) xs)"
proof -
  from assms obtain x rest v where xs: "xs = x # rest" and v: "v \<in> set rest" "v \<noteq> x"
    by (cases xs) (auto simp: list_all_iff)
  show ?thesis
    unfolding independent_columns_def
  proof (intro allI impI)
    fix c0 c1 :: real
    assume h: "\<forall>r \<in> set (map (\<lambda>x. [x, 1]) xs). c0 * (r ! 0) + c1 * (r ! 1) = 0"
    have "c0 * x + c1 = 0" using h xs by simp
    moreover have "c0 * v + c1 = 0" using h xs v by simp
    ultimately have "c0 * x - c0 * v = 0" by linarith
    then have "c0 * (x - v) = 0" by (simp add: right_diff_distrib)
    with v have "c0 = 0" by simp
    with \<open>c0 * x + c1 = 0\<close> show "c0 = 0 \<and> c1 = 0" by simp
  qed
qed



subsection \<open>The gap between two residuals\<close>

lemma residual_gap:
  assumes len: "length u = length v" "length v = length ys"
    and nz: "gram_det u v \<noteq> 0"
    and x0: "x0 = (dot v v * dot u ys - dot u v * dot v ys) / gram_det u v"
    and x1: "x1 = (dot u u * dot v ys - dot u v * dot u ys) / gram_det u v"
  shows "sq_residual (rows2 u v) [[z0], [z1]] (column ys) =
         sq_residual (rows2 u v) [[x0], [x1]] (column ys) + quad u v (z0 - x0) (z1 - x1)"
proof -
  have n1: "dot u u * x0 + dot u v * x1 = dot u ys"
  proof -
    have "dot u u * x0 + dot u v * x1 = gram_det u v * dot u ys / gram_det u v"
      unfolding x0 x1 by (simp add: gram_det_def algebra_simps add_divide_distrib [symmetric]
          diff_divide_distrib [symmetric])
    then show ?thesis using nz by simp
  qed
  have n2: "dot u v * x0 + dot v v * x1 = dot v ys"
  proof -
    have "dot u v * x0 + dot v v * x1 = gram_det u v * dot v ys / gram_det u v"
      unfolding x0 x1 by (simp add: gram_det_def algebra_simps add_divide_distrib [symmetric]
          diff_divide_distrib [symmetric])
    then show ?thesis using nz by simp
  qed
  show ?thesis
    using len
    by (simp only: sq_residual_rows2 residual_expand quad_expand n1 [symmetric] n2 [symmetric])
       (simp add: algebra_simps power2_eq_square)
qed

section \<open>The solver returns the least-squares coefficients\<close>










text \<open>
  C5. The solution is a 2 by 1 vector with the slope first and the intercept second:
  for the design matrix whose column 0 holds the x-values and whose column 1 holds
  ones, whatever the solver returns has the shape \<open>[[slope], [y_intercept]]\<close>, the
  reporter extracts exactly this pair, the line with this slope and this intercept has
  the least squared residual of all lines, and no other pair of slope and intercept
  reaches that residual (so the two components cannot be read the other way round).
\<close>

theorem coefficients_order:
  assumes ne: "xs \<noteq> []" and len: "length ys = length xs"
    and sol: "solution (map (\<lambda>x. [x, 1]) xs) (np_transpose (np_matrix ys)) = Inr s"
  shows "\<exists>slope y_intercept.
           s = [[slope], [y_intercept]] \<and>
           extract_coefficients s = Inr (slope, y_intercept) \<and>
           (\<forall>k c. line_residual slope y_intercept xs ys \<le> line_residual k c xs ys) \<and>
           (\<forall>k c. line_residual k c xs ys = line_residual slope y_intercept xs ys
                    \<longrightarrow> k = slope \<and> c = y_intercept)"
proof -
  define v where "v = replicate (length xs) (1::real)"
  have l: "length xs = length v" "length v = length ys"
    using len by (simp_all add: v_def)
  have A: "map (\<lambda>x. [x, 1]) xs = rows2 xs v"
    by (simp add: design_rows v_def)
  define x0 where "x0 = (dot v v * dot xs ys - dot xs v * dot v ys) / gram_det xs v"
  define x1 where "x1 = (dot xs xs * dot v ys - dot xs v * dot xs ys) / gram_det xs v"
  from sol have sol': "solution (rows2 xs v) (column ys) = Inr s"
    by (simp add: np_column A)
  have nz: "gram_det xs v \<noteq> 0"
    using sol' solution_rows2 [OF l ne] by (auto split: if_splits)
  have s: "s = [[x0], [x1]]"
    using sol' solution_rows2 [OF l ne] nz by (simp add: x0_def x1_def)
  have gap: "line_residual k c xs ys = line_residual x0 x1 xs ys + quad xs v (k - x0) (c - x1)"
    for k c
    using residual_gap [OF l nz x0_def x1_def, of k c] len
    by (simp add: line_residual_sq A)
  have least: "line_residual x0 x1 xs ys \<le> line_residual k c xs ys" for k c
    using gap [of k c] quad_nonneg [of xs v "k - x0" "c - x1"] by simp
  have uniq: "k = x0 \<and> c = x1" if "line_residual k c xs ys = line_residual x0 x1 xs ys" for k c
  proof -
    have "quad xs v (k - x0) (c - x1) = 0"
      using gap [of k c] that by simp
    from quad_zero [OF this] gram_det_independent [OF l(1) nz]
    have "k - x0 = 0 \<and> c - x1 = 0"
      unfolding independent_columns_def by blast
    then show ?thesis by simp
  qed
  show ?thesis
    using s extract_pair [of x0 x1] least uniq by blast
qed

theorem coefficients_order_witness:
  "solution (map (\<lambda>x. [x, 1]) [0, 1, 2]) (np_transpose (np_matrix [0, 0, 6])) = Inr [[3], [- 1]] \<and>
   extract_coefficients [[3], [- 1]] = Inr (3, - 1) \<and>
   line_residual 3 (- 1) [0, 1, 2] [0, 0, 6] \<le> line_residual (- 1) 3 [0, 1, 2] [0, 0, 6]"
proof -
  have s: "solution (map (\<lambda>x. [x, 1]) [0, 1, 2]) (np_transpose (np_matrix [0, 0, 6]))
             = Inr [[3], [- 1]]"
    by code_simp
  from coefficients_order [of "[0, 1, 2]" "[0, 0, 6]" "[[3], [- 1]]", OF _ _ s]
  obtain slope y_intercept where
    e: "[[3], [- 1]] = [[slope], [y_intercept]]"
      "extract_coefficients [[3], [- 1]] = Inr (slope, y_intercept)" and
    m: "\<forall>k c. line_residual slope y_intercept [0, 1, 2] [0, 0, 6]
               \<le> line_residual k c [0, 1, 2] [0, 0, 6]"
    by auto
  from e have "slope = 3" "y_intercept = - 1" by simp_all
  with e m s show ?thesis by blast
qed

text \<open>
  C6. For the x-values 0, 1, 2, 3 and the y-values 0, 1, 2, 3 the solver, given the
  design matrix of these x-values, returns slope 1 and intercept 0 (exactly, in exact
  arithmetic).
\<close>

theorem scenario_identity_line:
  "solution (map (\<lambda>x. [x, 1]) [0, 1, 2, 3]) (np_transpose (np_matrix [0, 1, 2, 3]))
     = Inr [[1], [0]] \<and>
   extract_coefficients [[1], [0]] = Inr (1, 0)"
  by code_simp

section \<open>Determinism of the solver\<close>

text \<open>
  C7. The solver is deterministic: called on the same \<open>A\<close> and \<open>y\<close> in any two worlds
  (any state of the random generator, any console, any file system; in particular the
  world left behind by a first call), it gives the same output, be it a solution or
  an error.
\<close>

theorem solver_deterministic:
  "map_sum id fst (solver_call A y w) = map_sum id fst (solver_call A y w')"
  by (cases "solution A y") (simp_all add: solver_call_def sess_run_def tf_constant_def)

section \<open>The run as a whole\<close>

subsection \<open>The steps of the pipeline\<close>

lemma best_fit_loop_append:
  "best_fit_loop slope c xs acc = acc @ map (\<lambda>x. slope * x + c) xs"
  by (induction xs arbitrary: acc) simp_all

lemma length_noise: "length (fst (np_random_normal loc scale n w)) = n"
  by (simp add: np_random_normal_def)

lemma y_values_100:
  "length x_vals = 100 \<Longrightarrow>
   y_values x_vals w = Inr (noisy x_vals w, w\<lparr>gauss := \<lambda>i. gauss w (i + 100)\<rparr>)"
  by (simp add: y_values_def np_add_def noisy_def np_random_normal_def)

lemma y_values_cases:
  "y_values x_vals w =
     (if length x_vals = 100 then Inr (noisy x_vals w, w\<lparr>gauss := \<lambda>i. gauss w (i + 100)\<rparr>)
      else if length x_vals = 1
        then Inr (map (\<lambda>y. hd x_vals + y) (fst (np_random_normal 0 1 100 w)),
                  w\<lparr>gauss := \<lambda>i. gauss w (i + 100)\<rparr>)
      else Inl Broadcast_mismatch)"
  by (simp add: y_values_def np_add_def noisy_def np_random_normal_def)

lemma noisy_nth:
  "length x_vals = 100 \<Longrightarrow> i < 100 \<Longrightarrow> noisy x_vals w ! i = x_vals ! i + gauss w i"
  by (simp add: noisy_def np_random_normal_def)

lemma design_matrix_cases:
  "design_matrix x_vals =
     (if length x_vals = 100 then Inr (map (\<lambda>x. [x, 1]) x_vals) else Inl Stack_mismatch)"
proof -
  have "map2 (@) (column xs) (column (replicate (length xs) 1)) = map (\<lambda>x. [x, 1]) xs" for xs
    unfolding column_def by (induction xs) simp_all
  from this [of x_vals] show ?thesis
    by (auto simp: design_matrix_def np_column_stack_def np_repeat_def np_column Let_def
        nrows_def length_column)
qed

lemma tensorboard_paths:
  "tensorboard_logs event_file w =
     w\<lparr>paths := paths w \<union> {''tensorboard_logs/'', ''tensorboard_logs/'' @ event_file}\<rparr>"
  by (simp add: tensorboard_logs_def file_writer_def os_makedirs_def os_path_exists_def
      insert_commute)

lemma linspace_length: "length (np_linspace 0 10 100) = 100"
  by (simp add: np_linspace_def)

lemma linspace_nth: "i < 100 \<Longrightarrow> np_linspace 0 10 100 ! i = real i * (10 / 99)"
  by (simp add: np_linspace_def)

lemma linspace_not_constant: "\<not> constant_seq (np_linspace 0 10 100)"
proof -
  have "[0..<100] = 0 # [1..<100]"
    by (simp add: upt_conv_Cons)
  moreover have "(99::nat) \<in> set [1..<100]" by simp
  ultimately show ?thesis
    by (auto simp: np_linspace_def list_all_iff intro!: bexI [of _ 99])
qed

lemma data_generator_run:
  "data_generator w =
     Inr ((np_linspace 0 10 100, noisy (np_linspace 0 10 100) w),
          w\<lparr>gauss := \<lambda>i. gauss w (i + 100)\<rparr>)"
  by (simp add: data_generator_def Let_def y_values_100 linspace_length)

lemma main_pipeline:
  "main str_float event_file w = pipeline str_float event_file (np_linspace 0 10 100) w"
  by (simp add: main_def pipeline_def data_generator_def Let_def split: sum.splits)

lemma pipeline_run:
  assumes len: "length x_vals = 100"
    and sol: "solution (map (\<lambda>x. [x, 1]) x_vals) (np_transpose (np_matrix (noisy x_vals w)))
                = Inr [[slope], [y_intercept]]"
  shows "pipeline str_float event_file x_vals w =
           Inr (after_run str_float event_file x_vals slope y_intercept w)"
proof -
  have ny: "length (noisy x_vals w) = 100"
    using len by (simp add: noisy_def length_noise)
  have plot: "plot_results x_vals (noisy x_vals w) (map (\<lambda>x. slope * x + y_intercept) x_vals) w'
      = Inr (w'\<lparr>shown := shown w' @ [result_figure x_vals (noisy x_vals w)
                             (map (\<lambda>x. slope * x + y_intercept) x_vals)]\<rparr>)" for w'
    using len ny
    by (simp add: plot_results_def plt_plot_def plt_show_def plt_legend_def empty_figure_def
        result_figure_def)
  show ?thesis
    using len
    by (simp add: pipeline_def fit_and_report_def y_values_100 design_matrix_cases
        solver_call_def sess_run_def
        tf_constant_def sol extract_pair best_fit_loop_append plot report_def py_print_def
        tensorboard_paths after_run_def)
qed

lemma pipeline_total:
  assumes len: "length x_vals = 100" and nc: "\<not> constant_seq x_vals"
  shows "\<exists>slope y_intercept.
           solution (map (\<lambda>x. [x, 1]) x_vals) (np_transpose (np_matrix (noisy x_vals w)))
             = Inr [[slope], [y_intercept]]"
proof -
  define v where "v = replicate (length x_vals) (1::real)"
  have l: "length x_vals = length v" "length v = length (noisy x_vals w)"
    using len by (simp_all add: v_def noisy_def length_noise)
  have ne: "x_vals \<noteq> []" using len by auto
  have nz: "gram_det x_vals v \<noteq> 0"
    using independent_gram_det [OF l(1)] nonconstant_independent [OF nc]
    by (simp add: design_rows v_def)
  show ?thesis
    using solution_rows2 [OF l ne] nz by (simp add: np_column design_rows v_def)
qed

lemma main_run:
  "\<exists>slope y_intercept.
     solution (map (\<lambda>x. [x, 1]) (np_linspace 0 10 100))
       (np_transpose (np_matrix (noisy (np_linspace 0 10 100) w))) = Inr [[slope], [y_intercept]] \<and>
     main str_float event_file w =
       Inr (after_run str_float event_file (np_linspace 0 10 100) slope y_intercept w)"
  using pipeline_total [OF linspace_length linspace_not_constant, of w]
    pipeline_run [OF linspace_length]
  unfolding main_pipeline by blast

subsection \<open>DataGenerator\<close>

text \<open>
  C8. The generator never fails and produces exactly 100 x-values and 100 y-values.
  The x-values start at 0, end at 10 and are evenly spaced (consecutive values differ by
  10/99); they are the same in every world, so they do not depend on the random
  generator. The y-values are the x-values plus, entry by entry, the 100 values that
  \<open>np.random.normal\<close> returns for mean 0 and standard deviation 1: the i-th y-value is
  the i-th x-value plus the i-th fresh draw. The law of the draws belongs to NumPy's
  generator, which the model treats as an arbitrary sequence.
\<close>

theorem data_generator_output:
  "\<exists>x_vals y_vals w'.
     data_generator w = Inr ((x_vals, y_vals), w') \<and>
     length x_vals = 100 \<and> length y_vals = 100 \<and>
     x_vals ! 0 = 0 \<and> x_vals ! 99 = 10 \<and>
     (\<forall>i<99. x_vals ! Suc i - x_vals ! i = 10 / 99) \<and>
     (\<forall>w2. fst (fst (projr (data_generator w2))) = x_vals) \<and>
     y_vals = map2 (+) x_vals (fst (np_random_normal 0 1 100 w)) \<and>
     (\<forall>i<100. y_vals ! i = x_vals ! i + gauss w i)"
proof -
  have step: "np_linspace 0 10 100 ! Suc i - np_linspace 0 10 100 ! i = 10 / 99" if "i < 99" for i
    using that by (simp add: linspace_nth algebra_simps)
  have ends: "np_linspace 0 10 100 ! 0 = 0" "np_linspace 0 10 100 ! 99 = 10"
    by (simp_all add: linspace_nth)
  have ny: "length (noisy (np_linspace 0 10 100) w) = 100"
    by (simp add: noisy_def length_noise linspace_length)
  show ?thesis
    using step ends ny
    by (simp add: data_generator_run linspace_length noisy_nth) (simp add: noisy_def)
qed

theorem data_generator_output_witness:
  "fst (fst (projr (data_generator silent_world))) ! 8
     - fst (fst (projr (data_generator silent_world))) ! 7 = 10 / 99 \<and>
   snd (fst (projr (data_generator silent_world))) ! 99 = 10"
proof -
  from data_generator_output [of silent_world]
  obtain x_vals y_vals w' where
    d: "data_generator silent_world = Inr ((x_vals, y_vals), w')" and
    e: "x_vals ! 99 = 10" and
    s: "\<forall>i<99. x_vals ! Suc i - x_vals ! i = 10 / 99" and
    y: "\<forall>i<100. y_vals ! i = x_vals ! i + gauss silent_world i"
    by blast
  have "(7::nat) < 99" by simp
  with s have "x_vals ! Suc 7 - x_vals ! 7 = 10 / 99" by blast
  then have "x_vals ! 8 - x_vals ! 7 = 10 / 99" by (simp add: eval_nat_numeral)
  moreover from y e have "y_vals ! 99 = 10" by (simp add: silent_world_def)
  ultimately show ?thesis using d by simp
qed

subsection \<open>Console output\<close>

text \<open>
  C9. Every run succeeds and appends exactly two lines to the console: the first is
  \<open>slope: \<close> followed by the text of the slope, the second \<open>y_intercept: \<close> followed by
  the text of the intercept, where slope and intercept are the two coefficients
  extracted from the solver's result on the generated data.
\<close>

theorem console_output:
  "\<exists>x_vals y_vals w1 A s slope y_intercept w'.
     data_generator w = Inr ((x_vals, y_vals), w1) \<and>
     design_matrix x_vals = Inr A \<and>
     solution A (np_transpose (np_matrix y_vals)) = Inr s \<and>
     extract_coefficients s = Inr (slope, y_intercept) \<and>
     main str_float event_file w = Inr w' \<and>
     stdout w' = stdout w @ [''slope: '' @ str_float slope,
                             ''y_intercept: '' @ str_float y_intercept]"
proof -
  from main_run [of w str_float event_file]
  obtain slope y_intercept where
    s: "solution (map (\<lambda>x. [x, 1]) (np_linspace 0 10 100))
          (np_transpose (np_matrix (noisy (np_linspace 0 10 100) w)))
          = Inr [[slope], [y_intercept]]" and
    m: "main str_float event_file w =
          Inr (after_run str_float event_file (np_linspace 0 10 100) slope y_intercept w)"
    by blast
  have d: "design_matrix (np_linspace 0 10 100) = Inr (map (\<lambda>x. [x, 1]) (np_linspace 0 10 100))"
    by (simp add: design_matrix_cases linspace_length)
  have o: "stdout (after_run str_float event_file (np_linspace 0 10 100) slope y_intercept w) =
        stdout w @ [''slope: '' @ str_float slope, ''y_intercept: '' @ str_float y_intercept]"
    by (simp add: after_run_def)
  from data_generator_run [of w] d s extract_pair [of slope y_intercept] m o
  show ?thesis by blast
qed

subsection \<open>Effects of a run\<close>

text \<open>
  Counterexample to C3 as stated (a run writes no files and leaves no persisted
  state): started where no path exists, the run ends with the directory
  \<open>tensorboard_logs/\<close> and an event file in it.
\<close>

theorem run_leaves_log_directory:
  "\<not> isl (main plain_str ''events.out.tfevents'' silent_world) \<and>
   paths silent_world = {} \<and>
   paths (projr (main plain_str ''events.out.tfevents'' silent_world)) =
     {''tensorboard_logs/'', ''tensorboard_logs/events.out.tfevents''}"
proof -
  from main_run [of silent_world plain_str "''events.out.tfevents''"]
  obtain slope y_intercept where
    "main plain_str ''events.out.tfevents'' silent_world =
       Inr (after_run plain_str ''events.out.tfevents'' (np_linspace 0 10 100) slope y_intercept
              silent_world)"
    by blast
  then show ?thesis
    by (simp add: after_run_def silent_world_def)
qed

text \<open>
  C3, amended. A complete run always succeeds and has exactly these effects: it prints
  the two lines of the console output, it shows one figure, it consumes 100 draws of
  the random generator, and it leaves the directory \<open>tensorboard_logs/\<close> (created when
  absent) with the event file of a TensorBoard writer in it. Nothing else of the world
  changes; every path that existed before still exists.
\<close>

theorem run_effects:
  "\<exists>slope y_intercept fig w'.
     main str_float event_file w = Inr w' \<and>
     gauss w' = (\<lambda>i. gauss w (i + 100)) \<and>
     stdout w' = stdout w @ [''slope: '' @ str_float slope,
                             ''y_intercept: '' @ str_float y_intercept] \<and>
     shown w' = shown w @ [fig] \<and>
     paths w' = paths w \<union> {''tensorboard_logs/'', ''tensorboard_logs/'' @ event_file}"
proof -
  from main_run [of w str_float event_file]
  obtain slope y_intercept where
    "main str_float event_file w =
       Inr (after_run str_float event_file (np_linspace 0 10 100) slope y_intercept w)"
    by blast
  then show ?thesis
    by (auto simp: after_run_def)
qed

subsection \<open>The hard-coded length\<close>

text \<open>
  C10. The length 100 is a precondition of the pipeline. For an x-sequence of exactly
  100 values the y-values and the design matrix are built without error. For every
  other length the design matrix cannot be built (the x-column and the column of 100
  ones differ in their row count), the y-values cannot be built either unless the
  length is 1 (a single value is broadcast over the 100 noise terms), and the pipeline
  ends in an error.
\<close>

theorem fixed_length_precondition:
  "(length x_vals = 100 \<longrightarrow>
      \<not> isl (design_matrix x_vals) \<and> \<not> isl (y_values x_vals w)) \<and>
   (length x_vals \<noteq> 100 \<longrightarrow>
      design_matrix x_vals = Inl Stack_mismatch \<and>
      (length x_vals \<noteq> 1 \<longrightarrow> y_values x_vals w = Inl Broadcast_mismatch) \<and>
      isl (pipeline str_float event_file x_vals w))"
  by (auto simp: design_matrix_cases y_values_cases pipeline_def fit_and_report_def)

theorem fixed_length_precondition_witness:
  "\<not> isl (design_matrix (replicate 100 0)) \<and>
   \<not> isl (y_values (replicate 100 0) silent_world) \<and>
   design_matrix [1, 2] = Inl Stack_mismatch \<and>
   y_values [1, 2] silent_world = Inl Broadcast_mismatch \<and>
   isl (pipeline plain_str ''events.out.tfevents'' [1, 2] silent_world)"
  using fixed_length_precondition [of "replicate 100 0" silent_world plain_str
      "''events.out.tfevents''"]
    fixed_length_precondition [of "[1, 2]" silent_world plain_str "''events.out.tfevents''"]
  by simp

end
